theory Spec2Isabelle
  imports Complex_Main
begin

section \<open>Responses and outcomes of external calls\<close>

text \<open>
  Every handler of the backend ends with \<^verbatim>\<open>res.status(code).json(body)\<close>. A response is
  the status code with its body: the data of a successful answer, a
  \<^verbatim>\<open>{ message }\<close> object, or the \<^verbatim>\<open>{ message: "Server error", error }\<close> object that the
  \<^verbatim>\<open>catch\<close> branch of a handler builds from the message of the exception.
\<close>

datatype 'a payload = Data 'a | Message string | ServerError string

type_synonym 'a response = "nat \<times> 'a payload"

text \<open>
  A call to the database or to the cache (\<^verbatim>\<open>user.save()\<close>, \<^verbatim>\<open>Coupon.findOne\<close>,
  \<^verbatim>\<open>redis.get\<close>) either is carried out or is rejected with an exception, which carries a
  message and takes the handler to its \<^verbatim>\<open>catch\<close> branch. The outcome of each call is a
  parameter of the handler that makes it.
\<close>

datatype db_result = Done | Failed string

section \<open>Cart (cart controller and the \<^verbatim>\<open>cartItems\<close> of the user schema)\<close>

text \<open>
  A cart line is a subdocument of the user. Its \<^verbatim>\<open>_id\<close> is an ObjectId and \<^verbatim>\<open>item.id\<close>,
  which the handlers compare with the product id of the request, is the text of that
  ObjectId: 24 hexadecimal digits in lower case. \<^verbatim>\<open>quantity\<close> is a \<^verbatim>\<open>Number\<close> with default 1
  and no validator; it holds a number or null. Numbers are modelled as exact rationals.
\<close>

record cart_item =
  item_id :: string
  quantity :: "rat option"

type_synonym cart = "cart_item list"

text \<open>
  The quantity of a request body is any JSON value: a number, or another value, given by
  its JSON text. Assigning a value that is not a number to the \<^verbatim>\<open>Number\<close> path makes the
  library cast it; the cast is a parameter of the model. It fails, and the save is then
  rejected with the message, or it gives what the path stores, a number or null.
\<close>

datatype js_value = JNumber rat | JOther string

datatype number_cast = CastError string | Stored "rat option"

text \<open>
  \<^verbatim>\<open>user.cartItems.push(productId)\<close> makes a subdocument whose \<^verbatim>\<open>_id\<close> is the product id cast
  to an ObjectId. The cast is a parameter of the model as well: \<open>Inr\<close> the text of the
  ObjectId, which is the \<^verbatim>\<open>item.id\<close> of the new line, or \<open>Inl\<close> the message with which the
  save is rejected. \<open>objectId_cast\<close> is the cast on a text of 24 hexadecimal digits, which it
  turns to lower case; the message for any other text is its first argument.
\<close>

definition is_hex_digit :: "char \<Rightarrow> bool" where
  "is_hex_digit c =
     (let n = (of_char c :: nat)
      in (48 \<le> n \<and> n \<le> 57) \<or> (65 \<le> n \<and> n \<le> 70) \<or> (97 \<le> n \<and> n \<le> 102))"

definition toLowerCase_char :: "char \<Rightarrow> char" where
  "toLowerCase_char c =
     (let n = (of_char c :: nat)
      in if 65 \<le> n \<and> n \<le> 90 then char_of (n + 32) else c)"

definition objectId_cast :: "string \<Rightarrow> string \<Rightarrow> string + string" where
  "objectId_cast msg s =
     (if length s = 24 \<and> list_all is_hex_digit s then Inr (map toLowerCase_char s)
      else Inl msg)"

text \<open>The ids that the cast returns as they are: 24 hexadecimal digits, none in upper case.\<close>

definition is_canonical_id :: "string \<Rightarrow> bool" where
  "is_canonical_id p =
     (length p = 24 \<and> list_all (\<lambda>ch. is_hex_digit ch \<and> toLowerCase_char ch = ch) p)"

text \<open>
  \<^verbatim>\<open>existingItem\<close> is a reference to the first line that \<^verbatim>\<open>find\<close> returns; an assignment to
  its field changes that line of the cart in place.
\<close>

fun update_first :: "('a \<Rightarrow> bool) \<Rightarrow> ('a \<Rightarrow> 'a) \<Rightarrow> 'a list \<Rightarrow> 'a list" where
  "update_first P f [] = []"
| "update_first P f (x # xs) = (if P x then f x # xs else x # update_first P f xs)"

text \<open>
  \<^verbatim>\<open>await user.save(); res.status(200).json(user.cartItems)\<close>: the answer and the cart that
  the database holds afterwards. A rejected save leaves the stored cart as it was.
\<close>

definition save_cart :: "db_result \<Rightarrow> cart \<Rightarrow> cart \<Rightarrow> cart response \<times> cart" where
  "save_cart sv old new =
     (case sv of
        Done \<Rightarrow> ((200, Data new), new)
      | Failed msg \<Rightarrow> ((500, ServerError msg), old))"

text \<open>\<^verbatim>\<open>existingItem.quantity += 1\<close>; in JavaScript \<^verbatim>\<open>null + 1\<close> is 1.\<close>

definition increment :: "rat option \<Rightarrow> rat option" where
  "increment q = (case q of None \<Rightarrow> Some 1 | Some n \<Rightarrow> Some (n + 1))"

text \<open>
  \<^verbatim>\<open>addToCart\<close>: the search compares \<^verbatim>\<open>item.id\<close> with the product id as the request gives
  it; the line that is pushed has the id that the cast returns.
\<close>

definition addToCart ::
  "(string \<Rightarrow> string + string) \<Rightarrow> db_result \<Rightarrow> string \<Rightarrow> cart \<Rightarrow> cart response \<times> cart" where
  "addToCart castObjectId sv productId cartItems =
     (case find (\<lambda>item. item_id item = productId) cartItems of
        Some existingItem \<Rightarrow>
          save_cart sv cartItems
            (update_first (\<lambda>item. item_id item = productId)
               (\<lambda>item. item\<lparr>quantity := increment (quantity item)\<rparr>) cartItems)
      | None \<Rightarrow>
          (case castObjectId productId of
             Inl msg \<Rightarrow> ((500, ServerError msg), cartItems)
           | Inr hex \<Rightarrow>
               save_cart sv cartItems (cartItems @ [\<lparr>item_id = hex, quantity = Some 1\<rparr>])))"


text \<open>
  \<^verbatim>\<open>existingItem.quantity = quantity\<close>: a number is stored as it is, any other value as the
  cast makes it. \<^verbatim>\<open>quantity === 0\<close> holds for the number 0 alone.
\<close>

definition assign_quantity ::
  "(string \<Rightarrow> number_cast) \<Rightarrow> db_result \<Rightarrow> string \<Rightarrow> js_value \<Rightarrow> cart \<Rightarrow> cart response \<times> cart" where
  "assign_quantity castNumber sv productId qty cartItems =
     (case qty of
        JNumber q \<Rightarrow>
          save_cart sv cartItems
            (update_first (\<lambda>item. item_id item = productId)
               (\<lambda>item. item\<lparr>quantity := Some q\<rparr>) cartItems)
      | JOther v \<Rightarrow>
          (case castNumber v of
             CastError msg \<Rightarrow> ((500, ServerError msg), cartItems)
           | Stored n \<Rightarrow>
               save_cart sv cartItems
                 (update_first (\<lambda>item. item_id item = productId)
                    (\<lambda>item. item\<lparr>quantity := n\<rparr>) cartItems)))"

definition updateQuantity ::
  "(string \<Rightarrow> number_cast) \<Rightarrow> db_result \<Rightarrow> string \<Rightarrow> js_value \<Rightarrow> cart \<Rightarrow> cart response \<times> cart" where
  "updateQuantity castNumber sv productId qty cartItems =
     (case find (\<lambda>item. item_id item = productId) cartItems of
        Some existingItem \<Rightarrow>
          (if qty = JNumber 0 then
             save_cart sv cartItems (filter (\<lambda>item. item_id item \<noteq> productId) cartItems)
           else assign_quantity castNumber sv productId qty cartItems)
      | None \<Rightarrow> ((404, Message ''Product not found in cart''), cartItems))"







definition has_line :: "string \<Rightarrow> cart \<Rightarrow> bool" where
  "has_line p c = (find (\<lambda>item. item_id item = p) c \<noteq> None)"

definition lines_of :: "string \<Rightarrow> cart \<Rightarrow> cart" where
  "lines_of p c = filter (\<lambda>item. item_id item = p) c"


section \<open>Coupons (coupon controller)\<close>

text \<open>
  A coupon document. Dates are milliseconds since the epoch, as \<^verbatim>\<open>Date.now()\<close> counts
  them. The collection is the list of its documents in storage order; \<^verbatim>\<open>findOne\<close>,
  \<^verbatim>\<open>findOneAndDelete\<close> and \<^verbatim>\<open>findOneAndUpdate\<close> act on the first document that
  matches the query.
\<close>

record coupon =
  code :: string
  discountPercentage :: rat
  expirationDate :: int
  userId :: string
  isActive :: bool

definition getCoupon :: "db_result \<Rightarrow> string \<Rightarrow> coupon list \<Rightarrow> coupon option response" where
  "getCoupon rd uid coupons =
     (case rd of
        Done \<Rightarrow> (200, Data (find (\<lambda>c. userId c = uid \<and> isActive c) coupons))
      | Failed msg \<Rightarrow> (500, ServerError msg))"

text \<open>\<^verbatim>\<open>coupon.expirationDate < Date.now()\<close>, the test of \<^verbatim>\<open>validateCoupon\<close>.\<close>

definition expired :: "int \<Rightarrow> coupon \<Rightarrow> bool" where
  "expired now c = (expirationDate c < now)"

definition validateCoupon ::
  "db_result \<Rightarrow> int \<Rightarrow> string \<Rightarrow> string \<Rightarrow> coupon list \<Rightarrow> (string \<times> rat) response" where
  "validateCoupon rd now uid cd coupons =
     (case rd of
        Failed msg \<Rightarrow> (500, ServerError msg)
      | Done \<Rightarrow>
          (case find (\<lambda>c. code c = cd \<and> userId c = uid \<and> isActive c) coupons of
             None \<Rightarrow> (404, Message ''Coupon not found'')
           | Some c \<Rightarrow>
               if expired now c then (400, Message ''Coupon expired'')
               else (200, Data (code c, discountPercentage c))))"

section \<open>Checkout and coupon award (payment controller)\<close>

text \<open>
  \<^verbatim>\<open>Math.round\<close> rounds to the nearest integer, a half upwards. The numbers of the request
  (prices, percentages) are modelled as exact rationals, quantities as integers; the
  rounding error of the floating-point product \<^verbatim>\<open>product.price * 100\<close> is outside the model.
\<close>

definition Math_round :: "rat \<Rightarrow> int" where
  "Math_round x = \<lfloor>x + 1 / 2\<rfloor>"

text \<open>
  A product of the request body. The fields are \<^verbatim>\<open>_id\<close>, \<^verbatim>\<open>name\<close>, \<^verbatim>\<open>image\<close>,
  \<^verbatim>\<open>price\<close> and \<^verbatim>\<open>quantity\<close> of the source, prefixed to keep them apart from the fields of
  a cart line.
\<close>

record product =
  p_id :: string
  p_name :: string
  p_image :: string
  p_price :: rat
  p_quantity :: int

record line_item =
  currency :: string
  product_name :: string
  images :: "string list"
  unit_amount :: int
  li_quantity :: int

text \<open>
  The callback of \<^verbatim>\<open>products.map\<close> builds one line item and adds
  \<^verbatim>\<open>amount * product.quantity\<close> to \<^verbatim>\<open>totalAmount\<close>; \<^verbatim>\<open>product.quantity || 1\<close> turns a
  quantity of 0 into 1 in the line item only.
\<close>

definition line_step :: "line_item list \<times> int \<Rightarrow> product \<Rightarrow> line_item list \<times> int" where
  "line_step acc p =
     (let amount = Math_round (p_price p * 100)
      in (fst acc @ [\<lparr>currency = ''usd'', product_name = p_name p, images = [p_image p],
                       unit_amount = amount,
                       li_quantity = (if p_quantity p = 0 then 1 else p_quantity p)\<rparr>],
          snd acc + amount * p_quantity p))"

definition line_items_total :: "product list \<Rightarrow> line_item list \<times> int" where
  "line_items_total products = foldl line_step ([], 0) products"

text \<open>
  The sum the claims speak of: \<^verbatim>\<open>round(price * 100) * quantity\<close> over all lines.
\<close>

definition pre_discount_total :: "product list \<Rightarrow> int" where
  "pre_discount_total products =
     sum_list (map (\<lambda>p. Math_round (p_price p * 100) * p_quantity p) products)"

text \<open>
  What the handler receives from outside: the outcome of each call to the database and to
  the payment gateway (\<open>Inl\<close> the message of the exception, \<open>Inr\<close> the identifier the
  gateway returns), the string \<^verbatim>\<open>Math.random().toString(36)\<close> and the clock \<^verbatim>\<open>Date.now()\<close>.
\<close>

record checkout_env =
  findOne_result :: db_result
  stripe_coupon_result :: "string + string"
  stripe_session_result :: "string + string"
  delete_result :: db_result
  save_result :: db_result
  random36 :: string
  now :: int

text \<open>
  Modelled from the spec: the default of \<^verbatim>\<open>isActive\<close> in the coupon schema
  (\<^verbatim>\<open>coupon.model.js\<close> is not among the sources). \<^verbatim>\<open>createNewCoupon\<close> does not set the
  field; the spec has the awarded coupon active.
\<close>

definition isActive_default :: bool where
  "isActive_default = True"

definition toUpperCase_char :: "char \<Rightarrow> char" where
  "toUpperCase_char c =
     (let n = (of_char c :: nat)
      in if 97 \<le> n \<and> n \<le> 122 then char_of (n - 32) else c)"

definition toUpperCase :: "string \<Rightarrow> string" where
  "toUpperCase s = map toUpperCase_char s"

text \<open>\<^verbatim>\<open>s.substring(i, j)\<close> for \<open>i \<le> j\<close>: the characters at the indices \<open>i\<close> to \<open>j - 1\<close> that exist.\<close>

definition substring :: "nat \<Rightarrow> nat \<Rightarrow> string \<Rightarrow> string" where
  "substring i j s = take (j - i) (drop i s)"

fun findOneAndDelete :: "('a \<Rightarrow> bool) \<Rightarrow> 'a list \<Rightarrow> 'a list" where
  "findOneAndDelete P [] = []"
| "findOneAndDelete P (x # xs) = (if P x then xs else x # findOneAndDelete P xs)"

definition new_coupon :: "string \<Rightarrow> int \<Rightarrow> string \<Rightarrow> coupon" where
  "new_coupon r t uid =
     \<lparr>code = ''GIFT'' @ toUpperCase (substring 2 8 r),
      discountPercentage = 10,
      expirationDate = t + 30 * 24 * 60 * 60 * 1000,
      userId = uid,
      isActive = isActive_default\<rparr>"

text \<open>
  \<^verbatim>\<open>createNewCoupon\<close>: delete one coupon of the user, then save the new one. The result is
  the new coupon or the message of the exception, with the collection afterwards; an
  exception of the save comes after the deletion.
\<close>

definition createNewCoupon :: "checkout_env \<Rightarrow> string \<Rightarrow> coupon list \<Rightarrow> (string + coupon) \<times> coupon list" where
  "createNewCoupon env uid coupons =
     (case delete_result env of
        Failed msg \<Rightarrow> (Inl msg, coupons)
      | Done \<Rightarrow>
          (let deleted = findOneAndDelete (\<lambda>c. userId c = uid) coupons;
               newCoupon = new_coupon (random36 env) (now env) uid
           in case save_result env of
                Failed msg \<Rightarrow> (Inl msg, deleted)
              | Done \<Rightarrow> (Inr newCoupon, deleted @ [newCoupon])))"

record checkout_body =
  products :: "product list option"
  couponCode :: "string option"

text \<open>
  What a run of \<^verbatim>\<open>createCheckoutSession\<close> leaves: the response (the session id with
  \<^verbatim>\<open>totalAmount / 100\<close>), the coupon collection, and the coupon that \<^verbatim>\<open>createNewCoupon\<close>
  returned if the handler called it.
\<close>

record checkout_outcome =
  reply :: "(string \<times> rat) response"
  coupons_after :: "coupon list"
  awarded :: "coupon option"

text \<open>
  Lines 42 to 52: the coupon that applies, and \<^verbatim>\<open>totalAmount\<close> after the assignment
  \<^verbatim>\<open>totalAmount = Math.round(totalAmount * coupon.discountPercentage / 100)\<close>.
  A missing or empty \<^verbatim>\<open>couponCode\<close> is falsy and skips the lookup.
\<close>

definition lookup_coupon :: "string \<Rightarrow> string option \<Rightarrow> coupon list \<Rightarrow> coupon option" where
  "lookup_coupon uid cc coupons =
     (case cc of
        None \<Rightarrow> None
      | Some cd \<Rightarrow>
          (if cd = [] then None
           else find (\<lambda>c. code c = cd \<and> userId c = uid \<and> isActive c) coupons))"

definition discounted_total :: "coupon option \<Rightarrow> int \<Rightarrow> int" where
  "discounted_total cpn totalAmount =
     (case cpn of
        None \<Rightarrow> totalAmount
      | Some c \<Rightarrow> Math_round (of_int totalAmount * discountPercentage c / 100))"

definition failed :: "string \<Rightarrow> coupon list \<Rightarrow> checkout_outcome" where
  "failed msg coupons = \<lparr>reply = (500, ServerError msg), coupons_after = coupons, awarded = None\<rparr>"

text \<open>
  Lines 81 to 86: the award when \<^verbatim>\<open>totalAmount >= 20000\<close>, then the response.
\<close>

definition award_and_reply ::
  "checkout_env \<Rightarrow> string \<Rightarrow> coupon list \<Rightarrow> string \<Rightarrow> int \<Rightarrow> checkout_outcome" where
  "award_and_reply env uid coupons session_id totalAmount =
     (if totalAmount \<ge> 20000 then
        (case createNewCoupon env uid coupons of
           (Inl msg, coupons') \<Rightarrow> failed msg coupons'
         | (Inr newCoupon, coupons') \<Rightarrow>
             \<lparr>reply = (200, Data (session_id, of_int totalAmount / 100)),
              coupons_after = coupons', awarded = Some newCoupon\<rparr>)
      else
        \<lparr>reply = (200, Data (session_id, of_int totalAmount / 100)),
         coupons_after = coupons, awarded = None\<rparr>)"

text \<open>
  Lines 54 to 79: \<^verbatim>\<open>createStripeCoupon\<close> is called only when a coupon applies, then the
  session is created; an exception of either call ends the handler with status 500.
\<close>

definition create_session ::
  "checkout_env \<Rightarrow> string \<Rightarrow> coupon list \<Rightarrow> coupon option \<Rightarrow> int \<Rightarrow> checkout_outcome" where
  "create_session env uid coupons cpn totalAmount =
     (case (if cpn = None then Inr [] else stripe_coupon_result env) of
        Inl msg \<Rightarrow> failed msg coupons
      | Inr discount \<Rightarrow>
          (case stripe_session_result env of
             Inl msg \<Rightarrow> failed msg coupons
           | Inr session_id \<Rightarrow> award_and_reply env uid coupons session_id totalAmount))"

definition price_and_create ::
  "checkout_env \<Rightarrow> string \<Rightarrow> string option \<Rightarrow> product list \<Rightarrow> coupon list \<Rightarrow> checkout_outcome" where
  "price_and_create env uid cc ps coupons =
     (let total0 = snd (line_items_total ps);
          lookup = (case cc of None \<Rightarrow> False | Some cd \<Rightarrow> cd \<noteq> [])
      in (case (if lookup then findOne_result env else Done) of
            Failed msg \<Rightarrow> failed msg coupons
          | Done \<Rightarrow>
              create_session env uid coupons (lookup_coupon uid cc coupons)
                (discounted_total (lookup_coupon uid cc coupons) total0)))"

definition createCheckoutSession ::
  "checkout_env \<Rightarrow> string \<Rightarrow> checkout_body \<Rightarrow> coupon list \<Rightarrow> checkout_outcome" where
  "createCheckoutSession env uid body coupons =
     (case products body of
        None \<Rightarrow> \<lparr>reply = (400, Message ''Invalid or empty products array''),
                 coupons_after = coupons, awarded = None\<rparr>
      | Some ps \<Rightarrow>
          (if ps = [] then \<lparr>reply = (400, Message ''Invalid or empty products array''),
                            coupons_after = coupons, awarded = None\<rparr>
           else price_and_create env uid (couponCode body) ps coupons))"

text \<open>
  \<^verbatim>\<open>checkoutSuccess\<close> deactivates the coupon named in the metadata of a paid session:
  \<^verbatim>\<open>Coupon.findOneAndUpdate({ code, userId }, { isActive: false })\<close>.
\<close>

definition deactivateCoupon :: "string \<Rightarrow> string \<Rightarrow> coupon list \<Rightarrow> coupon list" where
  "deactivateCoupon cd uid coupons =
     update_first (\<lambda>c. code c = cd \<and> userId c = uid) (\<lambda>c. c\<lparr>isActive := False\<rparr>) coupons"

text \<open>
  The coupon collections the code can produce: empty at first, then changed by the two
  operations of the source that write coupons, the award and the deactivation.
\<close>

inductive reachable :: "coupon list \<Rightarrow> bool" where
  empty: "reachable []"
| award: "reachable cs \<Longrightarrow> reachable (snd (createNewCoupon env uid cs))"
| deactivate: "reachable cs \<Longrightarrow> reachable (deactivateCoupon cd uid cs)"

definition active_coupons :: "string \<Rightarrow> coupon list \<Rightarrow> coupon list" where
  "active_coupons uid cs = filter (\<lambda>c. userId c = uid \<and> isActive c) cs"

definition coupons_of :: "string \<Rightarrow> coupon list \<Rightarrow> coupon list" where
  "coupons_of uid cs = filter (\<lambda>c. userId c = uid) cs"

section \<open>Daily sales series (analytics controller)\<close>

text \<open>
  A \<^verbatim>\<open>Date\<close> is its time value, the milliseconds since the epoch. The text
  \<^verbatim>\<open>YYYY-MM-DD\<close> that \<^verbatim>\<open>toISOString().slice(0, 10)\<close> and \<^verbatim>\<open>$dateToString\<close> produce
  names the UTC calendar day of the instant; the model takes the number of that day
  (days since the epoch) for the text, which is right where \<open>four_digit_year\<close> holds.
\<close>

definition day_ms :: int where
  "day_ms = 24 * 60 * 60 * 1000"

definition utc_day :: "int \<Rightarrow> int" where
  "utc_day t = t div day_ms"


record order =
  createdAt :: int
  totalAmount :: rat

record daily_group =
  group_id :: int
  group_sales :: int
  group_revenue :: rat

record daily_entry =
  date :: int
  sales :: int
  revenue :: rat

text \<open>
  The pipeline \<^verbatim>\<open>$match\<close>, \<^verbatim>\<open>$group\<close>, \<^verbatim>\<open>$sort\<close>: the orders created between the two
  dates, one group for each day that has such an order, with the number of its orders and
  the sum of their amounts, in ascending order of the day.
\<close>

definition aggregate_daily :: "int \<Rightarrow> int \<Rightarrow> order list \<Rightarrow> daily_group list" where
  "aggregate_daily startDate endDate orders =
     (let matched = filter (\<lambda>ord. startDate \<le> createdAt ord \<and> createdAt ord \<le> endDate) orders;
          days = sort (remdups (map (\<lambda>ord. utc_day (createdAt ord)) matched))
      in map (\<lambda>d. \<lparr>group_id = d,
                    group_sales = int (length (filter (\<lambda>ord. utc_day (createdAt ord) = d) matched)),
                    group_revenue =
                      sum_list (map totalAmount (filter (\<lambda>ord. utc_day (createdAt ord) = d) matched))\<rparr>)
           days)"

text \<open>
  \<^verbatim>\<open>setDate\<close> and \<^verbatim>\<open>getDate\<close> work in the local time of the server. The time zone is a
  parameter of the model: the offset of local time from UTC in milliseconds, as a
  function of the UTC instant and as a function of the local time value.
  \<^verbatim>\<open>currentDate.setDate(currentDate.getDate() + 1)\<close> takes the local time of the instant,
  moves it to the same time of day on the next local day, and takes the instant of that
  local time. Where the offset does not change this is 24 hours later; across a clock
  change it is 23 or 25 hours later.
\<close>

record zone =
  offset_at_utc :: "int \<Rightarrow> int"
  offset_at_local :: "int \<Rightarrow> int"

definition setDate_next :: "zone \<Rightarrow> int \<Rightarrow> int" where
  "setDate_next z t =
     (let local = t + offset_at_utc z t;
          moved = local + day_ms
      in moved - offset_at_local z moved)"


text \<open>
  A zone with one clock change: the offset \<open>before\<close> up to the UTC instant \<open>at_utc\<close>, which is
  the local time value \<open>at_local\<close>, and the offset \<open>after\<close> from then on.
\<close>

definition clock_change_zone :: "int \<Rightarrow> int \<Rightarrow> int \<Rightarrow> int \<Rightarrow> zone" where
  "clock_change_zone before after at_utc at_local =
     \<lparr>offset_at_utc = (\<lambda>t. if t < at_utc then before else after),
      offset_at_local = (\<lambda>l. if l < at_local then before else after)\<rparr>"


text \<open>
  The \<^verbatim>\<open>while\<close> loop of \<^verbatim>\<open>getDatesInRange\<close>, with \<^verbatim>\<open>dates\<close> as accumulator. For a zone
  whose offsets let the date never pass the end the loop does not return; the result is
  then \<open>None\<close>.
\<close>

partial_function (option) dates_loop :: "zone \<Rightarrow> int \<Rightarrow> int \<Rightarrow> int list \<Rightarrow> int list option" where
  "dates_loop z currentDate endDate dates =
     (if currentDate \<le> endDate
      then dates_loop z (setDate_next z currentDate) endDate (dates @ [utc_day currentDate])
      else Some dates)"

definition getDatesInRange :: "zone \<Rightarrow> int \<Rightarrow> int \<Rightarrow> int list option" where
  "getDatesInRange z startDate endDate = dates_loop z startDate endDate []"

text \<open>\<^verbatim>\<open>x || 0\<close> on a number.\<close>

definition or_zero :: "'a::zero \<Rightarrow> 'a" where
  "or_zero x = (if x = 0 then 0 else x)"

definition getDailySalesData :: "zone \<Rightarrow> int \<Rightarrow> int \<Rightarrow> order list \<Rightarrow> daily_entry list option" where
  "getDailySalesData z startDate endDate orders =
     (let dailySalesData = aggregate_daily startDate endDate orders
      in (case getDatesInRange z startDate endDate of
            None \<Rightarrow> None
          | Some dateArray \<Rightarrow>
              Some (map (\<lambda>d.
                      (case find (\<lambda>data. group_id data = d) dailySalesData of
                         None \<Rightarrow> \<lparr>date = d, sales = 0, revenue = 0\<rparr>
                       | Some foundData \<Rightarrow>
                           \<lparr>date = d, sales = or_zero (group_sales foundData),
                            revenue = or_zero (group_revenue foundData)\<rparr>))
                    dateArray)))"

text \<open>The orders that the series counts for a day.\<close>

definition matching_orders :: "int \<Rightarrow> int \<Rightarrow> int \<Rightarrow> order list \<Rightarrow> order list" where
  "matching_orders startDate endDate d orders =
     filter (\<lambda>ord. startDate \<le> createdAt ord \<and> createdAt ord \<le> endDate \<and> utc_day (createdAt ord) = d)
       orders"

text \<open>
  The entry that a day should get: the number of the orders counted for the day and the
  sum of their amounts.
\<close>

definition day_entry :: "int \<Rightarrow> int \<Rightarrow> order list \<Rightarrow> int \<Rightarrow> daily_entry" where
  "day_entry s e orders d =
     \<lparr>date = d, sales = int (length (matching_orders s e d orders)),
      revenue = sum_list (map totalAmount (matching_orders s e d orders))\<rparr>"

section \<open>Token refresh (auth controller)\<close>

text \<open>
  The cache maps a key to its value and the seconds it has left. The JWT library is a
  parameter: \<^verbatim>\<open>jwt.verify\<close> with the refresh secret returns the user id of the payload
  (\<open>Inr\<close>) or throws (\<open>Inl\<close>, the message: bad signature, expired); \<^verbatim>\<open>jwt.sign\<close> with the
  access secret and \<^verbatim>\<open>expiresIn: "15m"\<close> returns the new access token of a user id.
\<close>

type_synonym redis = "string \<rightharpoonup> string \<times> nat"

record jwt =
  verify_refresh :: "string \<Rightarrow> string + string"
  sign_access :: "string \<Rightarrow> string"
  sign_refresh :: "string \<Rightarrow> string"

definition refresh_key :: "string \<Rightarrow> string" where
  "refresh_key uid = ''refresh_token:'' @ uid"

definition storeRefreshToken :: "string \<Rightarrow> string \<Rightarrow> redis \<Rightarrow> redis" where
  "storeRefreshToken uid token r = r(refresh_key uid \<mapsto> (token, 7 * 24 * 60 * 60))"

definition redis_get :: "redis \<Rightarrow> string \<Rightarrow> string option" where
  "redis_get r k = map_option fst (r k)"

text \<open>A cookie that the response sets: name, value and \<^verbatim>\<open>maxAge\<close> in milliseconds.\<close>

type_synonym cookie = "string \<times> string \<times> nat"

record refresh_outcome =
  refresh_reply :: "unit response"
  set_cookies :: "cookie list"
  redis_after :: redis

text \<open>
  \<^verbatim>\<open>refreshToken\<close>: \<^verbatim>\<open>!refreshToken\<close> holds for a missing cookie and for the empty string;
  \<^verbatim>\<open>refreshToken !== storedToken\<close> holds when the cache has no entry. The handler reads
  the cache and never writes it.
\<close>

definition refreshToken :: "jwt \<Rightarrow> db_result \<Rightarrow> string option \<Rightarrow> redis \<Rightarrow> refresh_outcome" where
  "refreshToken j rd cookie r =
     (case cookie of
        None \<Rightarrow> \<lparr>refresh_reply = (401, Message ''No refresh token found''),
                 set_cookies = [], redis_after = r\<rparr>
      | Some token \<Rightarrow>
          (if token = [] then
             \<lparr>refresh_reply = (401, Message ''No refresh token found''),
              set_cookies = [], redis_after = r\<rparr>
           else
             (case verify_refresh j token of
                Inl msg \<Rightarrow> \<lparr>refresh_reply = (500, ServerError msg),
                            set_cookies = [], redis_after = r\<rparr>
              | Inr decoded_userId \<Rightarrow>
                  (case rd of
                     Failed msg \<Rightarrow> \<lparr>refresh_reply = (500, ServerError msg),
                                     set_cookies = [], redis_after = r\<rparr>
                   | Done \<Rightarrow>
                       (if Some token \<noteq> redis_get r (refresh_key decoded_userId) then
                          \<lparr>refresh_reply = (401, Message ''Invalid refresh token''),
                           set_cookies = [], redis_after = r\<rparr>
                        else
                          \<lparr>refresh_reply = (200, Message ''Token refreshed successfully''),
                           set_cookies =
                             [(''accessToken'', sign_access j decoded_userId, 15 * 60 * 1000)],
                           redis_after = r\<rparr>)))))"

section \<open>Cart: helper lemmas\<close>

lemma find_None_filter: "find P xs = None \<Longrightarrow> filter P xs = []"
  by (induction xs) (auto split: if_splits)

lemma find_filter_neg: "find P (filter (\<lambda>x. \<not> P x) xs) = None"
  by (induction xs) auto











lemma find_append_new:
  "find P xs = None \<Longrightarrow> P x \<Longrightarrow> find P (xs @ [x]) = Some x"
  by (induction xs) (auto split: if_splits)

lemma update_first_append_new:
  "find P xs = None \<Longrightarrow> P x \<Longrightarrow> update_first P f (xs @ [x]) = xs @ [f x]"
  by (induction xs) (auto split: if_splits)

lemma addToCart_new_line:
  "\<not> has_line p c \<Longrightarrow> oid p = Inr p \<Longrightarrow>
     addToCart oid Done p c =
       ((200, Data (c @ [\<lparr>item_id = p, quantity = Some 1\<rparr>])),
        c @ [\<lparr>item_id = p, quantity = Some 1\<rparr>])"
  by (simp add: addToCart_def has_line_def save_cart_def)

lemma addToCart_second:
  "\<not> has_line p c \<Longrightarrow>
     addToCart oid Done p (c @ [\<lparr>item_id = p, quantity = Some 1\<rparr>]) =
       ((200, Data (c @ [\<lparr>item_id = p, quantity = Some 2\<rparr>])),
        c @ [\<lparr>item_id = p, quantity = Some 2\<rparr>])"
  by (simp add: addToCart_def has_line_def save_cart_def find_append_new
        update_first_append_new increment_def)

lemma lines_of_append_new:
  "\<not> has_line p c \<Longrightarrow>
     lines_of p (c @ [\<lparr>item_id = p, quantity = n\<rparr>]) = [\<lparr>item_id = p, quantity = n\<rparr>]"
  by (simp add: lines_of_def has_line_def find_None_filter)

lemma updateQuantity_zero_present:
  "has_line p c \<Longrightarrow>
     updateQuantity num Done p (JNumber 0) c =
       ((200, Data (filter (\<lambda>item. item_id item \<noteq> p) c)), filter (\<lambda>item. item_id item \<noteq> p) c)"
  by (auto simp: updateQuantity_def has_line_def save_cart_def split: option.split)

lemma lines_of_filter_other: "lines_of p (filter (\<lambda>item. item_id item \<noteq> p) c) = []"
  by (induction c) (auto simp: lines_of_def)

lemma no_line_filter_other: "\<not> has_line p (filter (\<lambda>item. item_id item \<noteq> p) c)"
  by (simp add: has_line_def find_filter_neg)

lemma objectId_cast_canonical: "is_canonical_id p \<Longrightarrow> objectId_cast msg p = Inr p"
  by (auto simp: is_canonical_id_def objectId_cast_def list_all_iff intro: map_idI)

section \<open>Cart: the claims\<close>




text \<open>
  C6, the claim as stated fails. It has two adds of any product \<open>p\<close>, from a cart with no
  line for \<open>p\<close>, end in a line for \<open>p\<close> of quantity 2. The line that add pushes has the id in
  the lower case of the ObjectId, and the search compares it with the id as the request
  gives it; for an id with upper-case digits the second add finds no line and pushes a
  second one, so two lines of quantity 1 are left and none of quantity 2.
\<close>

theorem add_twice_two_lines:
  "snd (addToCart (objectId_cast ''invalid id'') Done ''507F1F77BCF86CD799439011''
         (snd (addToCart (objectId_cast ''invalid id'') Done ''507F1F77BCF86CD799439011'' [])))
     = [\<lparr>item_id = ''507f1f77bcf86cd799439011'', quantity = Some 1\<rparr>,
        \<lparr>item_id = ''507f1f77bcf86cd799439011'', quantity = Some 1\<rparr>]"
  by code_simp

text \<open>
  C6, as amended. Let \<open>p\<close> be a product id in the form in which the cart stores ids, the
  form that the ObjectId cast returns as it is (24 hexadecimal digits in lower case).
  From a cart with no line for \<open>p\<close>, two adds whose saves succeed answer 200 and leave the
  cart with one more line, the line for \<open>p\<close> at quantity 2, which is the only line for \<open>p\<close>.
  From a cart with a line for \<open>p\<close>, for any \<open>p\<close>, setQuantity of \<open>p\<close> to 0 whose save succeeds
  answers 200 and leaves no line for \<open>p\<close>.
\<close>

theorem add_twice_setQuantity_zero:
  "(\<not> has_line p c \<and> oid p = Inr p \<longrightarrow>
      snd (addToCart oid Done p (snd (addToCart oid Done p c)))
        = c @ [\<lparr>item_id = p, quantity = Some 2\<rparr>]
      \<and> fst (addToCart oid Done p (snd (addToCart oid Done p c)))
          = (200, Data (c @ [\<lparr>item_id = p, quantity = Some 2\<rparr>]))
      \<and> lines_of p (snd (addToCart oid Done p (snd (addToCart oid Done p c))))
          = [\<lparr>item_id = p, quantity = Some 2\<rparr>])
   \<and> (has_line p c \<longrightarrow>
        fst (fst (updateQuantity num Done p (JNumber 0) c)) = 200
        \<and> \<not> has_line p (snd (updateQuantity num Done p (JNumber 0) c))
        \<and> lines_of p (snd (updateQuantity num Done p (JNumber 0) c)) = [])"
  by (simp add: addToCart_new_line addToCart_second lines_of_append_new
        updateQuantity_zero_present no_line_filter_other lines_of_filter_other)

theorem add_twice_setQuantity_zero_witness:
  "\<not> has_line ''507f1f77bcf86cd799439012''
       [\<lparr>item_id = ''507f1f77bcf86cd799439011'', quantity = Some 3\<rparr>]
   \<and> objectId_cast ''invalid id'' ''507f1f77bcf86cd799439012'' = Inr ''507f1f77bcf86cd799439012''
   \<and> snd (addToCart (objectId_cast ''invalid id'') Done ''507f1f77bcf86cd799439012''
          (snd (addToCart (objectId_cast ''invalid id'') Done ''507f1f77bcf86cd799439012''
             [\<lparr>item_id = ''507f1f77bcf86cd799439011'', quantity = Some 3\<rparr>])))
       = [\<lparr>item_id = ''507f1f77bcf86cd799439011'', quantity = Some 3\<rparr>,
          \<lparr>item_id = ''507f1f77bcf86cd799439012'', quantity = Some 2\<rparr>]
   \<and> has_line ''507f1f77bcf86cd799439011''
        [\<lparr>item_id = ''507f1f77bcf86cd799439011'', quantity = Some 3\<rparr>,
         \<lparr>item_id = ''507f1f77bcf86cd799439012'', quantity = Some 2\<rparr>]
   \<and> lines_of ''507f1f77bcf86cd799439011''
        (snd (updateQuantity CastError Done ''507f1f77bcf86cd799439011'' (JNumber 0)
           [\<lparr>item_id = ''507f1f77bcf86cd799439011'', quantity = Some 3\<rparr>,
            \<lparr>item_id = ''507f1f77bcf86cd799439012'', quantity = Some 2\<rparr>])) = []"
proof -
  let ?a = "\<lparr>item_id = ''507f1f77bcf86cd799439011'', quantity = Some 3\<rparr>"
  let ?b = "\<lparr>item_id = ''507f1f77bcf86cd799439012'', quantity = Some 2\<rparr>"
  let ?oid = "objectId_cast ''invalid id''"
  have h1: "\<not> has_line ''507f1f77bcf86cd799439012'' [?a]"
    by (simp add: has_line_def)
  have h2: "?oid ''507f1f77bcf86cd799439012'' = Inr ''507f1f77bcf86cd799439012''"
    by code_simp
  have h3: "has_line ''507f1f77bcf86cd799439011'' [?a, ?b]"
    by (simp add: has_line_def)
  from h1 h2 add_twice_setQuantity_zero [of "''507f1f77bcf86cd799439012''" "[?a]" ?oid CastError]
  have a: "snd (addToCart ?oid Done ''507f1f77bcf86cd799439012''
          (snd (addToCart ?oid Done ''507f1f77bcf86cd799439012'' [?a]))) = [?a, ?b]"
    by simp
  from h3 add_twice_setQuantity_zero [of "''507f1f77bcf86cd799439011''" "[?a, ?b]" ?oid CastError]
  have b: "lines_of ''507f1f77bcf86cd799439011''
        (snd (updateQuantity CastError Done ''507f1f77bcf86cd799439011'' (JNumber 0) [?a, ?b])) = []"
    by simp
  from h1 h2 h3 a b show ?thesis by simp
qed

text \<open>
  C10. When the cart has no line for \<open>p\<close>, \<^verbatim>\<open>updateQuantity\<close> answers 404 with the message
  "Product not found in cart" for every quantity, makes no save, and leaves the cart as
  it was.
\<close>

theorem updateQuantity_not_in_cart:
  "\<not> has_line p c \<Longrightarrow>
     updateQuantity num sv p q c = ((404, Message ''Product not found in cart''), c)"
  by (simp add: updateQuantity_def has_line_def)

theorem updateQuantity_not_in_cart_witness:
  "\<not> has_line ''507f1f77bcf86cd799439012''
       [\<lparr>item_id = ''507f1f77bcf86cd799439011'', quantity = Some 3\<rparr>]
   \<and> updateQuantity CastError (Failed ''down'') ''507f1f77bcf86cd799439012'' (JNumber 7)
        [\<lparr>item_id = ''507f1f77bcf86cd799439011'', quantity = Some 3\<rparr>]
       = ((404, Message ''Product not found in cart''),
          [\<lparr>item_id = ''507f1f77bcf86cd799439011'', quantity = Some 3\<rparr>])"
proof -
  have h: "\<not> has_line ''507f1f77bcf86cd799439012''
       [\<lparr>item_id = ''507f1f77bcf86cd799439011'', quantity = Some 3\<rparr>]"
    by (simp add: has_line_def)
  from updateQuantity_not_in_cart [OF h, of CastError "Failed ''down''" "JNumber 7"] h
  show ?thesis by simp
qed

section \<open>Coupons and checkout: helper lemmas\<close>

lemma find_Some_props: "find P xs = Some x \<Longrightarrow> x \<in> set xs \<and> P x"
  by (induction xs) (auto split: if_splits)

lemma snd_foldl_line_step:
  "snd (foldl line_step acc ps)
     = snd acc + sum_list (map (\<lambda>p. Math_round (p_price p * 100) * p_quantity p) ps)"
  by (induction ps arbitrary: acc) (simp_all add: line_step_def Let_def)

lemma line_items_total_sum: "snd (line_items_total ps) = pre_discount_total ps"
  by (simp add: line_items_total_def pre_discount_total_def snd_foldl_line_step)

lemma filter_findOneAndDelete_other:
  "(\<And>x. Q x \<Longrightarrow> \<not> P x) \<Longrightarrow> filter Q (findOneAndDelete P xs) = filter Q xs"
  by (induction xs) auto

lemma filter_findOneAndDelete_same:
  "filter P (findOneAndDelete P xs) = tl (filter P xs)"
  by (induction xs) auto

lemma coupons_of_delete_same:
  "length (coupons_of uid cs) \<le> 1 \<Longrightarrow>
     coupons_of uid (findOneAndDelete (\<lambda>c. userId c = uid) cs) = []"
  unfolding coupons_of_def filter_findOneAndDelete_same
  by (cases "filter (\<lambda>c. userId c = uid) cs") simp_all

lemma coupons_of_delete_other:
  "u \<noteq> uid \<Longrightarrow>
     coupons_of u (findOneAndDelete (\<lambda>c. userId c = uid) cs) = coupons_of u cs"
  unfolding coupons_of_def by (rule filter_findOneAndDelete_other) simp

lemma map_userId_update_first:
  "(\<And>c. userId (f c) = userId c) \<Longrightarrow> map userId (update_first P f cs) = map userId cs"
  by (induction cs) auto

lemma length_coupons_of_map: "length (coupons_of u cs) = length (filter (\<lambda>x. x = u) (map userId cs))"
  by (induction cs) (auto simp: coupons_of_def)

lemma length_coupons_of_deactivate:
  "length (coupons_of u (deactivateCoupon cd uid cs)) = length (coupons_of u cs)"
  by (simp add: length_coupons_of_map deactivateCoupon_def map_userId_update_first)

lemma userId_new_coupon: "userId (new_coupon r t uid) = uid"
  by (simp add: new_coupon_def)

lemma isActive_new_coupon: "isActive (new_coupon r t uid)"
  by (simp add: new_coupon_def isActive_default_def)

lemma length_coupons_of_award:
  assumes "length (coupons_of u cs) \<le> 1"
  shows "length (coupons_of u (snd (createNewCoupon env uid cs))) \<le> 1"
proof (cases "u = uid")
  case True
  with assms have "coupons_of u (findOneAndDelete (\<lambda>c. userId c = uid) cs) = []"
    by (simp add: coupons_of_delete_same)
  then have del: "filter (\<lambda>c. userId c = u) (findOneAndDelete (\<lambda>c. userId c = uid) cs) = []"
    by (simp add: coupons_of_def)
  from assms have old: "length (filter (\<lambda>c. userId c = u) cs) \<le> 1"
    by (simp add: coupons_of_def)
  show ?thesis
    using old
    by (simp add: createNewCoupon_def coupons_of_def Let_def del userId_new_coupon
          split: db_result.split)
next
  case False
  then have del: "filter (\<lambda>c. userId c = u) (findOneAndDelete (\<lambda>c. userId c = uid) cs)
      = filter (\<lambda>c. userId c = u) cs"
    using coupons_of_delete_other [of u uid cs] by (simp add: coupons_of_def)
  from assms have old: "length (filter (\<lambda>c. userId c = u) cs) \<le> 1"
    by (simp add: coupons_of_def)
  from False old show ?thesis
    by (simp add: createNewCoupon_def coupons_of_def Let_def del userId_new_coupon
          split: db_result.split)
qed

lemma reachable_one_coupon: "reachable cs \<Longrightarrow> length (coupons_of u cs) \<le> 1"
proof (induction arbitrary: u rule: reachable.induct)
  case empty
  show ?case by (simp add: coupons_of_def)
next
  case (award cs env uid)
  from award.IH [of u] show ?case by (rule length_coupons_of_award)
next
  case (deactivate cs cd uid)
  then show ?case by (simp add: length_coupons_of_deactivate)
qed

lemma active_coupons_filter: "active_coupons u cs = filter isActive (coupons_of u cs)"
  by (simp add: active_coupons_def coupons_of_def conj_commute)

lemma length_active_le: "length (active_coupons u cs) \<le> length (coupons_of u cs)"
  by (simp add: active_coupons_filter)

lemma createNewCoupon_done:
  "delete_result env = Done \<Longrightarrow> save_result env = Done \<Longrightarrow>
     createNewCoupon env uid cs =
       (Inr (new_coupon (random36 env) (now env) uid),
        findOneAndDelete (\<lambda>c. userId c = uid) cs @ [new_coupon (random36 env) (now env) uid])"
  by (simp add: createNewCoupon_def Let_def)


lemma award_and_reply_done:
  "delete_result env = Done \<Longrightarrow> save_result env = Done \<Longrightarrow>
     reply (award_and_reply env uid cs sid amount) = (200, Data (sid, of_int amount / 100))
     \<and> (awarded (award_and_reply env uid cs sid amount) \<noteq> None \<longleftrightarrow> 20000 \<le> amount)"
  by (simp add: award_and_reply_def createNewCoupon_done)

lemma price_and_create_done:
  assumes "findOne_result env = Done" "stripe_coupon_result env = Inr cid"
    "stripe_session_result env = Inr sid"
  shows "price_and_create env uid cc ps cs =
     award_and_reply env uid cs sid
       (discounted_total (lookup_coupon uid cc cs) (pre_discount_total ps))"
  using assms
  by (simp add: price_and_create_def create_session_def Let_def line_items_total_sum)

lemma threshold_minor_units: "(200 \<le> (of_int n :: rat) / 100) = (20000 \<le> n)"
proof -
  have "(200 \<le> (of_int n :: rat) / 100) = (200 * 100 \<le> (of_int n :: rat))"
    by (rule pos_le_divide_eq) simp
  also have "\<dots> = ((of_int 20000 :: rat) \<le> of_int n)" by simp
  also have "\<dots> = (20000 \<le> n)" by (simp only: of_int_le_iff)
  finally show ?thesis .
qed

lemma validateCoupon_ok_unexpired:
  "validateCoupon rd t uid cd cs = (200, Data x) \<Longrightarrow>
     \<exists>c \<in> set cs. x = (code c, discountPercentage c) \<and> \<not> expired t c"
  by (auto simp: validateCoupon_def split: db_result.splits option.splits if_splits
        dest: find_Some_props)

section \<open>Coupons and checkout: the claims\<close>

text \<open>
  C4, the claim as stated fails. It has \<^verbatim>\<open>getCoupon\<close> deliver null or a coupon that is
  active and unexpired. The query of \<^verbatim>\<open>getCoupon\<close> is \<^verbatim>\<open>{ userId, isActive: true }\<close> and
  nothing in the handler reads the expiration date, so an active coupon whose date has
  passed is delivered: here a coupon that expired at 1000, with the clock at 2000.
\<close>

theorem getCoupon_delivers_expired:
  "getCoupon Done ''u1''
     [\<lparr>code = ''GIFTAB12CD'', discountPercentage = 10, expirationDate = 1000,
       userId = ''u1'', isActive = True\<rparr>]
     = (200, Data (Some \<lparr>code = ''GIFTAB12CD'', discountPercentage = 10, expirationDate = 1000,
                          userId = ''u1'', isActive = True\<rparr>))
   \<and> expired 2000 \<lparr>code = ''GIFTAB12CD'', discountPercentage = 10, expirationDate = 1000,
                     userId = ''u1'', isActive = True\<rparr>"
  by (simp add: getCoupon_def expired_def)

text \<open>
  C4, as amended. A read that succeeds answers 200 with null when the user has no active
  coupon, and otherwise with a coupon of the collection that belongs to the user and is
  active, whatever its expiration date; a read that fails answers 500.
\<close>

theorem getCoupon_null_or_active:
  "(\<exists>msg. rd = Failed msg \<and> getCoupon rd uid cs = (500, ServerError msg))
   \<or> (rd = Done \<and> getCoupon rd uid cs = (200, Data None) \<and> active_coupons uid cs = [])
   \<or> (\<exists>c. rd = Done \<and> getCoupon rd uid cs = (200, Data (Some c))
          \<and> c \<in> set cs \<and> userId c = uid \<and> isActive c)"
proof (cases rd)
  case (Failed msg)
  then show ?thesis by (simp add: getCoupon_def)
next
  case Done
  show ?thesis
  proof (cases "find (\<lambda>c. userId c = uid \<and> isActive c) cs")
    case None
    then have "active_coupons uid cs = []"
      by (simp add: active_coupons_def find_None_filter)
    with Done None show ?thesis by (simp add: getCoupon_def)
  next
    case (Some c)
    from find_Some_props [OF Some] Done Some show ?thesis by (simp add: getCoupon_def)
  qed
qed

text \<open>
  C5, the claim as stated fails. It has the code of an awarded coupon end in a random
  suffix of exactly 4 characters. \<^verbatim>\<open>createNewCoupon\<close> takes \<^verbatim>\<open>substring(2, 8)\<close> of the
  base-36 text of the random number, which are 6 characters: the random text
  \<^verbatim>\<open>0.4fzyo82mvyr\<close> gives the code \<^verbatim>\<open>GIFT4FZYO8\<close>.
\<close>

theorem createNewCoupon_suffix_six:
  "fst (createNewCoupon
        \<lparr>findOne_result = Done, stripe_coupon_result = Inr ''co_1'',
         stripe_session_result = Inr ''cs_1'', delete_result = Done, save_result = Done,
         random36 = ''0.4fzyo82mvyr'', now = 1000\<rparr> ''u1'' [])
     = Inr \<lparr>code = ''GIFT4FZYO8'', discountPercentage = 10, expirationDate = 2592001000,
            userId = ''u1'', isActive = True\<rparr>
   \<and> length (drop (length ''GIFT'') ''GIFT4FZYO8'') \<noteq> 4"
  by code_simp

text \<open>
  C5, as amended. The coupon of an award whose database calls succeed has discount
  percentage 10, expires 30 days of 24 hours after the time of the award, belongs to the
  user, and has the code \<^verbatim>\<open>GIFT\<close> followed by the upper-cased characters 2 to 7 of the
  random text, which are 6 characters whenever that text has 8 characters or more.
\<close>

theorem createNewCoupon_fields:
  "delete_result env = Done \<Longrightarrow> save_result env = Done \<Longrightarrow>
     \<exists>c. fst (createNewCoupon env uid cs) = Inr c
       \<and> discountPercentage c = 10
       \<and> expirationDate c = now env + 30 * day_ms
       \<and> userId c = uid
       \<and> code c = ''GIFT'' @ toUpperCase (take 6 (drop 2 (random36 env)))
       \<and> length (toUpperCase (take 6 (drop 2 (random36 env)))) = min 6 (length (random36 env) - 2)
       \<and> (8 \<le> length (random36 env) \<longrightarrow> length (code c) = 4 + 6)"
  by (simp add: createNewCoupon_done new_coupon_def day_ms_def substring_def toUpperCase_def)

theorem createNewCoupon_fields_witness:
  "delete_result \<lparr>findOne_result = Done, stripe_coupon_result = Inr ''co_1'',
         stripe_session_result = Inr ''cs_1'', delete_result = Done, save_result = Done,
         random36 = ''0.k3j9xq1w7'', now = 5000\<rparr> = Done
   \<and> save_result \<lparr>findOne_result = Done, stripe_coupon_result = Inr ''co_1'',
         stripe_session_result = Inr ''cs_1'', delete_result = Done, save_result = Done,
         random36 = ''0.k3j9xq1w7'', now = 5000\<rparr> = Done
   \<and> (\<exists>c. fst (createNewCoupon
              \<lparr>findOne_result = Done, stripe_coupon_result = Inr ''co_1'',
               stripe_session_result = Inr ''cs_1'', delete_result = Done, save_result = Done,
               random36 = ''0.k3j9xq1w7'', now = 5000\<rparr> ''u2'' []) = Inr c
         \<and> discountPercentage c = 10 \<and> expirationDate c = 2592005000
         \<and> length (code c) = 10)"
proof -
  let ?env = "\<lparr>findOne_result = Done, stripe_coupon_result = Inr ''co_1'',
         stripe_session_result = Inr ''cs_1'', delete_result = Done, save_result = Done,
         random36 = ''0.k3j9xq1w7'', now = 5000\<rparr>"
  have h1: "delete_result ?env = Done" by simp
  have h2: "save_result ?env = Done" by simp
  from createNewCoupon_fields [OF h1 h2, of "''u2''" "[]"]
  obtain c where c: "fst (createNewCoupon ?env ''u2'' []) = Inr c"
    "discountPercentage c = 10" "expirationDate c = now ?env + 30 * day_ms"
    "8 \<le> length (random36 ?env) \<longrightarrow> length (code c) = 4 + 6"
    by blast
  from c(3) have e: "expirationDate c = 2592005000" by (simp add: day_ms_def)
  from c(4) have l: "length (code c) = 10" by simp
  from h1 h2 c(1) c(2) e l show ?thesis by blast
qed


text \<open>
  C7. In every coupon collection that the code can produce from the empty one by
  awards and deactivations, whether their database calls succeed or fail, each user has
  at most one coupon and so at most one active coupon. After an award for a user whose
  database calls succeed, the coupons of that user are the new coupon alone, and it is
  active: the coupon the user had before is gone.
\<close>

theorem one_active_coupon_per_user:
  "reachable cs \<Longrightarrow>
     length (active_coupons u cs) \<le> 1
     \<and> (delete_result env = Done \<and> save_result env = Done \<longrightarrow>
          coupons_of uid (snd (createNewCoupon env uid cs))
            = [new_coupon (random36 env) (now env) uid]
          \<and> active_coupons uid (snd (createNewCoupon env uid cs))
            = [new_coupon (random36 env) (now env) uid]
          \<and> length (active_coupons uid (snd (createNewCoupon env uid cs))) = 1)"
proof -
  assume r: "reachable cs"
  have one: "length (coupons_of uid cs) \<le> 1" using r by (rule reachable_one_coupon)
  have "length (active_coupons u cs) \<le> length (coupons_of u cs)" by (rule length_active_le)
  also have "\<dots> \<le> 1" using r by (rule reachable_one_coupon)
  finally have a: "length (active_coupons u cs) \<le> 1" .
  have del: "filter (\<lambda>c. userId c = uid) (findOneAndDelete (\<lambda>c. userId c = uid) cs) = []"
    using coupons_of_delete_same [OF one] by (simp add: coupons_of_def)
  have b: "delete_result env = Done \<and> save_result env = Done \<longrightarrow>
      coupons_of uid (snd (createNewCoupon env uid cs))
        = [new_coupon (random36 env) (now env) uid]"
    by (simp add: createNewCoupon_done coupons_of_def del userId_new_coupon)
  from b have c: "delete_result env = Done \<and> save_result env = Done \<longrightarrow>
      active_coupons uid (snd (createNewCoupon env uid cs))
        = [new_coupon (random36 env) (now env) uid]"
    by (simp add: active_coupons_filter isActive_new_coupon)
  from a b c show ?thesis by simp
qed

theorem one_active_coupon_per_user_witness:
  "reachable [\<lparr>code = ''GIFTAB12CD'', discountPercentage = 10, expirationDate = 2592000500,
               userId = ''u1'', isActive = False\<rparr>]
   \<and> active_coupons ''u1''
        (snd (createNewCoupon
           \<lparr>findOne_result = Done, stripe_coupon_result = Inr ''co_1'',
            stripe_session_result = Inr ''cs_1'', delete_result = Done, save_result = Done,
            random36 = ''0.4fzyo82mvyr'', now = 1000\<rparr> ''u1''
           [\<lparr>code = ''GIFTAB12CD'', discountPercentage = 10, expirationDate = 2592000500,
             userId = ''u1'', isActive = False\<rparr>]))
      = [\<lparr>code = ''GIFT4FZYO8'', discountPercentage = 10, expirationDate = 2592001000,
          userId = ''u1'', isActive = True\<rparr>]"
proof -
  let ?before = "\<lparr>findOne_result = Done, stripe_coupon_result = Inr ''co_1'',
            stripe_session_result = Inr ''cs_1'', delete_result = Done, save_result = Done,
            random36 = ''0.ab12cd'', now = 500\<rparr>"
  let ?env = "\<lparr>findOne_result = Done, stripe_coupon_result = Inr ''co_1'',
            stripe_session_result = Inr ''cs_1'', delete_result = Done, save_result = Done,
            random36 = ''0.4fzyo82mvyr'', now = 1000\<rparr>"
  let ?c = "\<lparr>code = ''GIFTAB12CD'', discountPercentage = 10, expirationDate = 2592000500,
             userId = ''u1'', isActive = False\<rparr>"
  have s1: "snd (createNewCoupon ?before ''u1'' []) = [?c\<lparr>isActive := True\<rparr>]"
    by (simp add: createNewCoupon_done new_coupon_def substring_def toUpperCase_def
          isActive_default_def) code_simp
  have s2: "deactivateCoupon ''GIFTAB12CD'' ''u1'' [?c\<lparr>isActive := True\<rparr>] = [?c]"
    by (simp add: deactivateCoupon_def)
  have "reachable (snd (createNewCoupon ?before ''u1'' []))"
    by (rule reachable.award) (rule reachable.empty)
  then have "reachable (deactivateCoupon ''GIFTAB12CD'' ''u1'' [?c\<lparr>isActive := True\<rparr>])"
    unfolding s1 by (rule reachable.deactivate)
  then have h: "reachable [?c]" unfolding s2 .
  have n: "new_coupon (random36 ?env) (now ?env) ''u1''
      = \<lparr>code = ''GIFT4FZYO8'', discountPercentage = 10, expirationDate = 2592001000,
          userId = ''u1'', isActive = True\<rparr>"
    by code_simp
  from one_active_coupon_per_user [OF h, of "''u1''" ?env "''u1''"] n h show ?thesis
    by simp
qed

text \<open>
  C1. The request: one product of price 100 and quantity 1, with the code of an active
  coupon of the user at 10 percent; every external call succeeds. The sum before the
  discount is 10000. The handler answers with the total 10 (1000 minor units), which is
  10 percent of the sum, where the claim has 90 percent of it, 9000.
\<close>

theorem checkout_total_with_coupon:
  "pre_discount_total
     [\<lparr>p_id = ''P1'', p_name = ''Lamp'', p_image = ''lamp.png'', p_price = 100, p_quantity = 1\<rparr>]
     = 10000
   \<and> reply (createCheckoutSession
        \<lparr>findOne_result = Done, stripe_coupon_result = Inr ''co_1'',
         stripe_session_result = Inr ''cs_1'', delete_result = Done, save_result = Done,
         random36 = ''0.4fzyo82mvyr'', now = 1000\<rparr>
        ''u1''
        \<lparr>products = Some [\<lparr>p_id = ''P1'', p_name = ''Lamp'', p_image = ''lamp.png'',
                            p_price = 100, p_quantity = 1\<rparr>],
         couponCode = Some ''GIFTAB12CD''\<rparr>
        [\<lparr>code = ''GIFTAB12CD'', discountPercentage = 10, expirationDate = 5000,
          userId = ''u1'', isActive = True\<rparr>])
     = (200, Data (''cs_1'', 1000 / 100))"
  by code_simp

text \<open>
  C2, the claim as stated fails. It has the award decided by the sum before the
  discount. The handler compares \<^verbatim>\<open>totalAmount\<close> with 20000 after the coupon has changed
  it, so a request whose sum is 20000 and whose 10 percent coupon applies gets no new
  coupon.
\<close>

theorem checkout_no_award_with_coupon:
  "20000 \<le> pre_discount_total
     [\<lparr>p_id = ''P1'', p_name = ''Desk'', p_image = ''desk.png'', p_price = 200, p_quantity = 1\<rparr>]
   \<and> awarded (createCheckoutSession
        \<lparr>findOne_result = Done, stripe_coupon_result = Inr ''co_1'',
         stripe_session_result = Inr ''cs_1'', delete_result = Done, save_result = Done,
         random36 = ''0.4fzyo82mvyr'', now = 1000\<rparr>
        ''u1''
        \<lparr>products = Some [\<lparr>p_id = ''P1'', p_name = ''Desk'', p_image = ''desk.png'',
                            p_price = 200, p_quantity = 1\<rparr>],
         couponCode = Some ''GIFTAB12CD''\<rparr>
        [\<lparr>code = ''GIFTAB12CD'', discountPercentage = 10, expirationDate = 5000,
          userId = ''u1'', isActive = True\<rparr>]) = None"
  by code_simp


text \<open>
  C2, as amended. For a request with products whose external calls all succeed, the
  answer is 200 with the session id and the total; a new coupon is awarded if and only
  if that total is at least 200 (20000 minor units); and when no coupon applies the
  total is the sum before the discount, so the award is then decided by that sum.
\<close>

theorem award_iff_returned_total:
  assumes "products body = Some ps" and "ps \<noteq> []"
    and "findOne_result env = Done" and "stripe_coupon_result env = Inr cid"
    and "stripe_session_result env = Inr sid"
    and "delete_result env = Done" and "save_result env = Done"
  shows "\<exists>t. reply (createCheckoutSession env uid body cs) = (200, Data (sid, t))
           \<and> (awarded (createCheckoutSession env uid body cs) \<noteq> None \<longleftrightarrow> 200 \<le> t)
           \<and> (lookup_coupon uid (couponCode body) cs = None \<longrightarrow>
                t = of_int (pre_discount_total ps) / 100
                \<and> (awarded (createCheckoutSession env uid body cs) \<noteq> None
                     \<longleftrightarrow> 20000 \<le> pre_discount_total ps))"
proof -
  let ?amount = "discounted_total (lookup_coupon uid (couponCode body) cs) (pre_discount_total ps)"
  have run: "createCheckoutSession env uid body cs = award_and_reply env uid cs sid ?amount"
    using assms(1-5) by (simp add: createCheckoutSession_def price_and_create_done)
  have r: "reply (createCheckoutSession env uid body cs)
      = (200, Data (sid, of_int ?amount / 100))"
    unfolding run using award_and_reply_done [OF assms(6) assms(7)] by blast
  have a: "awarded (createCheckoutSession env uid body cs) \<noteq> None \<longleftrightarrow> 20000 \<le> ?amount"
    unfolding run using award_and_reply_done [OF assms(6) assms(7)] by blast
  have t: "awarded (createCheckoutSession env uid body cs) \<noteq> None
      \<longleftrightarrow> 200 \<le> (of_int ?amount :: rat) / 100"
    using a by (simp only: threshold_minor_units)
  have n: "lookup_coupon uid (couponCode body) cs = None \<longrightarrow>
      (of_int ?amount :: rat) / 100 = of_int (pre_discount_total ps) / 100
      \<and> (awarded (createCheckoutSession env uid body cs) \<noteq> None
           \<longleftrightarrow> 20000 \<le> pre_discount_total ps)"
  proof
    assume "lookup_coupon uid (couponCode body) cs = None"
    then have e: "?amount = pre_discount_total ps" by (simp add: discounted_total_def)
    from a show "(of_int ?amount :: rat) / 100 = of_int (pre_discount_total ps) / 100
      \<and> (awarded (createCheckoutSession env uid body cs) \<noteq> None
           \<longleftrightarrow> 20000 \<le> pre_discount_total ps)"
      unfolding e by blast
  qed
  from r t n have "reply (createCheckoutSession env uid body cs)
        = (200, Data (sid, of_int ?amount / 100))
      \<and> (awarded (createCheckoutSession env uid body cs) \<noteq> None
           \<longleftrightarrow> 200 \<le> (of_int ?amount :: rat) / 100)
      \<and> (lookup_coupon uid (couponCode body) cs = None \<longrightarrow>
            (of_int ?amount :: rat) / 100 = of_int (pre_discount_total ps) / 100
            \<and> (awarded (createCheckoutSession env uid body cs) \<noteq> None
                 \<longleftrightarrow> 20000 \<le> pre_discount_total ps))"
    by blast
  then show ?thesis by (rule exI)
qed


theorem award_iff_returned_total_witness:
  "products \<lparr>products = Some [\<lparr>p_id = ''P7'', p_name = ''Sofa'', p_image = ''sofa.png'',
                                  p_price = 250, p_quantity = 1\<rparr>],
              couponCode = None\<rparr>
     = Some [\<lparr>p_id = ''P7'', p_name = ''Sofa'', p_image = ''sofa.png'',
              p_price = 250, p_quantity = 1\<rparr>]
   \<and> [\<lparr>p_id = ''P7'', p_name = ''Sofa'', p_image = ''sofa.png'',
        p_price = 250, p_quantity = 1\<rparr>] \<noteq> []
   \<and> reply (createCheckoutSession
        \<lparr>findOne_result = Done, stripe_coupon_result = Inr ''co_1'',
         stripe_session_result = Inr ''cs_1'', delete_result = Done, save_result = Done,
         random36 = ''0.4fzyo82mvyr'', now = 1000\<rparr>
        ''u1''
        \<lparr>products = Some [\<lparr>p_id = ''P7'', p_name = ''Sofa'', p_image = ''sofa.png'',
                            p_price = 250, p_quantity = 1\<rparr>],
         couponCode = None\<rparr> []) = (200, Data (''cs_1'', 250))
   \<and> awarded (createCheckoutSession
        \<lparr>findOne_result = Done, stripe_coupon_result = Inr ''co_1'',
         stripe_session_result = Inr ''cs_1'', delete_result = Done, save_result = Done,
         random36 = ''0.4fzyo82mvyr'', now = 1000\<rparr>
        ''u1''
        \<lparr>products = Some [\<lparr>p_id = ''P7'', p_name = ''Sofa'', p_image = ''sofa.png'',
                            p_price = 250, p_quantity = 1\<rparr>],
         couponCode = None\<rparr> []) \<noteq> None"
proof -
  let ?env = "\<lparr>findOne_result = Done, stripe_coupon_result = Inr ''co_1'',
         stripe_session_result = Inr ''cs_1'', delete_result = Done, save_result = Done,
         random36 = ''0.4fzyo82mvyr'', now = 1000\<rparr>"
  let ?ps = "[\<lparr>p_id = ''P7'', p_name = ''Sofa'', p_image = ''sofa.png'',
               p_price = 250, p_quantity = 1\<rparr>]"
  let ?body = "\<lparr>products = Some ?ps, couponCode = None\<rparr>"
  have h1: "products ?body = Some ?ps" by simp
  have h2: "?ps \<noteq> []" by simp
  have h3: "findOne_result ?env = Done" by simp
  have h4: "stripe_coupon_result ?env = Inr ''co_1''" by simp
  have h5: "stripe_session_result ?env = Inr ''cs_1''" by simp
  have h6: "delete_result ?env = Done" by simp
  have h7: "save_result ?env = Done" by simp
  from award_iff_returned_total [OF h1 h2 h3 h4 h5 h6 h7, of "''u1''" "[]"]
  obtain t where t: "reply (createCheckoutSession ?env ''u1'' ?body []) = (200, Data (''cs_1'', t))"
    "awarded (createCheckoutSession ?env ''u1'' ?body []) \<noteq> None \<longleftrightarrow> 200 \<le> t"
    by blast
  have v: "reply (createCheckoutSession ?env ''u1'' ?body []) = (200, Data (''cs_1'', 250))"
    by code_simp
  from t(1) v have "t = 250" by simp
  with t(2) have w: "awarded (createCheckoutSession ?env ''u1'' ?body []) \<noteq> None" by simp
  from h1 h2 v w show ?thesis by blast
qed

section \<open>Daily sales series: helper lemmas\<close>







lemma or_zero_id: "or_zero x = x"
  by (simp add: or_zero_def)

lemma find_group:
  "find (\<lambda>g. group_id g = d) (map (\<lambda>x. \<lparr>group_id = x, group_sales = f x, group_revenue = h x\<rparr>) ds)
     = (if d \<in> set ds then Some \<lparr>group_id = d, group_sales = f d, group_revenue = h d\<rparr> else None)"
  by (induction ds) auto

lemma filter_day_matched:
  "filter (\<lambda>ord. utc_day (createdAt ord) = d)
     (filter (\<lambda>ord. s \<le> createdAt ord \<and> createdAt ord \<le> e) orders)
   = matching_orders s e d orders"
  by (simp add: matching_orders_def conj_commute conj_left_commute)

lemma find_aggregate_daily:
  "find (\<lambda>g. group_id g = d) (aggregate_daily s e orders)
     = (if matching_orders s e d orders = [] then None
        else Some \<lparr>group_id = d,
                   group_sales = int (length (matching_orders s e d orders)),
                   group_revenue = sum_list (map totalAmount (matching_orders s e d orders))\<rparr>)"
proof -
  let ?matched = "filter (\<lambda>ord. s \<le> createdAt ord \<and> createdAt ord \<le> e) orders"
  have mem: "(d \<in> utc_day ` createdAt ` set ?matched) = (matching_orders s e d orders \<noteq> [])"
    by (auto simp: matching_orders_def filter_empty_conv)
  show ?thesis
    unfolding aggregate_daily_def Let_def find_group filter_day_matched
    using mem by (simp add: image_image)
qed

lemma getDailySalesData_entries:
  "getDailySalesData z s e orders
     = map_option (map (day_entry s e orders)) (getDatesInRange z s e)"
  by (simp add: getDailySalesData_def Let_def find_aggregate_daily or_zero_id day_entry_def
        split: option.split)



section \<open>Daily sales series: the claim\<close>


text \<open>
  The step is a local day and the dates are UTC days, so a clock change of the server's
  zone inside the range breaks the series as well. In New York the clocks went from
  UTC-5 to UTC-4 at 2024-03-10T07:00Z; from 2024-03-10T00:30Z to 2024-03-12T00:30Z the
  dates are day 19792 (March 10) twice and then day 19793, and day 19794 (March 12) is
  missing.
\<close>

lemma dailySeries_clock_change:
  "map_option (map date)
     (getDailySalesData (clock_change_zone (- 18000000) (- 14400000) 1710054000000 1710036000000)
        1710030600000 1710203400000 [])
     = Some [19792, 19792, 19793]
   \<and> [utc_day 1710030600000 .. utc_day 1710203400000] = [19792, 19793, 19794]"
proof -
  have d: "getDatesInRange
      (clock_change_zone (- 18000000) (- 14400000) 1710054000000 1710036000000)
      1710030600000 1710203400000 = Some [19792, 19792, 19793]"
    unfolding getDatesInRange_def
    by (subst dates_loop.simps,
        simp add: setDate_next_def clock_change_zone_def day_ms_def utc_day_def)+
  have u: "[utc_day 1710030600000 .. utc_day 1710203400000] = [19792, 19793, 19794]"
    by code_simp
  have g: "map_option (map date)
     (getDailySalesData (clock_change_zone (- 18000000) (- 14400000) 1710054000000 1710036000000)
        1710030600000 1710203400000 []) = Some [19792, 19792, 19793]"
    by (simp add: getDailySalesData_entries d day_entry_def)
  from u g show ?thesis by simp
qed



lemma refreshToken_redis_unchanged: "redis_after (refreshToken j rd cookie r) = r"
  by (simp add: refreshToken_def split: option.split sum.split db_result.split)

section \<open>Token refresh: the claim\<close>

text \<open>
  C9. A refresh request whose cookie holds a token that \<^verbatim>\<open>jwt.verify\<close> accepts for a user
  and that equals the token the cache holds under the key of that user, with the cache
  read succeeding, is answered 200; the response sets the one cookie \<^verbatim>\<open>accessToken\<close> to
  the token that \<^verbatim>\<open>jwt.sign\<close> issues for the user, with a life of 15 minutes, and sets no
  refresh cookie; the cache afterwards is the cache before, so the stored refresh token
  and its expiry are as they were.
\<close>

theorem refreshToken_rotates_access_only:
  assumes "token \<noteq> []" and "verify_refresh j token = Inr uid"
    and "r (refresh_key uid) = Some (token, ttl)"
  shows "refreshToken j Done (Some token) r =
           \<lparr>refresh_reply = (200, Message ''Token refreshed successfully''),
            set_cookies = [(''accessToken'', sign_access j uid, 15 * 60 * 1000)],
            redis_after = r\<rparr>
         \<and> redis_after (refreshToken j Done (Some token) r) (refresh_key uid) = Some (token, ttl)"
  using assms by (simp add: refreshToken_def redis_get_def)

theorem refreshToken_rotates_access_only_witness:
  "''rt.u1.sig'' \<noteq> []
   \<and> verify_refresh
        \<lparr>verify_refresh = (\<lambda>t. if t = ''rt.u1.sig'' then Inr ''u1'' else Inl ''invalid signature''),
         sign_access = (\<lambda>u. ''at.'' @ u), sign_refresh = (\<lambda>u. ''rt.'' @ u @ ''.sig'')\<rparr>
        ''rt.u1.sig'' = Inr ''u1''
   \<and> (storeRefreshToken ''u1'' ''rt.u1.sig'' Map.empty) (refresh_key ''u1'')
        = Some (''rt.u1.sig'', 604800)
   \<and> refreshToken
        \<lparr>verify_refresh = (\<lambda>t. if t = ''rt.u1.sig'' then Inr ''u1'' else Inl ''invalid signature''),
         sign_access = (\<lambda>u. ''at.'' @ u), sign_refresh = (\<lambda>u. ''rt.'' @ u @ ''.sig'')\<rparr>
        Done (Some ''rt.u1.sig'') (storeRefreshToken ''u1'' ''rt.u1.sig'' Map.empty)
       = \<lparr>refresh_reply = (200, Message ''Token refreshed successfully''),
          set_cookies = [(''accessToken'', ''at.u1'', 900000)],
          redis_after = storeRefreshToken ''u1'' ''rt.u1.sig'' Map.empty\<rparr>"
proof -
  let ?j = "\<lparr>verify_refresh = (\<lambda>t. if t = ''rt.u1.sig'' then Inr ''u1'' else Inl ''invalid signature''),
         sign_access = (\<lambda>u. ''at.'' @ u), sign_refresh = (\<lambda>u. ''rt.'' @ u @ ''.sig'')\<rparr>"
  let ?r = "storeRefreshToken ''u1'' ''rt.u1.sig'' Map.empty"
  have h1: "''rt.u1.sig'' \<noteq> []" by simp
  have h2: "verify_refresh ?j ''rt.u1.sig'' = Inr ''u1''" by simp
  have h3: "?r (refresh_key ''u1'') = Some (''rt.u1.sig'', 604800)"
    by (simp add: storeRefreshToken_def)
  from refreshToken_rotates_access_only [of "''rt.u1.sig''" ?j "''u1''" ?r 604800, OF h1 h2 h3]
    h1 h2 h3
  show ?thesis by simp
qed

end
